theory Spec2Isabelle
  imports Main "HOL-Library.Sublist" "HOL-Library.AList"
begin

section \<open>Python string operations used by the generator\<close>

text \<open>
  Strings are lists of characters. The operations below are the ones \<^verbatim>\<open>Home.py\<close> applies
  to section text, given for ASCII text: \<^verbatim>\<open>str.upper\<close> maps \<^verbatim>\<open>a\<close>..\<^verbatim>\<open>z\<close> to
  \<^verbatim>\<open>A\<close>..\<^verbatim>\<open>Z\<close> and leaves every other character alone, and the whitespace of
  \<^verbatim>\<open>str.strip()\<close> and \<^verbatim>\<open>str.split()\<close> is tab, line feed, vertical tab, form feed,
  carriage return, the four separators 0x1C..0x1F and the space.
\<close>

definition upper_char :: "char \<Rightarrow> char" where
  "upper_char c =
     (case map_of (zip ''abcdefghijklmnopqrstuvwxyz'' ''ABCDEFGHIJKLMNOPQRSTUVWXYZ'') c of
        Some u \<Rightarrow> u
      | None \<Rightarrow> c)"

definition upper :: "string \<Rightarrow> string" where
  "upper s = map upper_char s"

definition is_space :: "char \<Rightarrow> bool" where
  "is_space c =
     (c \<in> set [CHR 0x09, CHR 0x0A, CHR 0x0B, CHR 0x0C, CHR 0x0D,
                CHR 0x1C, CHR 0x1D, CHR 0x1E, CHR 0x1F, CHR 0x20])"

definition strip :: "string \<Rightarrow> string" where
  "strip s = rev (dropWhile is_space (rev (dropWhile is_space s)))"

text \<open>\<^verbatim>\<open>s.strip('#')\<close>: the characters of the argument are removed from both ends.\<close>

definition strip_chars :: "char \<Rightarrow> string \<Rightarrow> string" where
  "strip_chars x s = rev (dropWhile (\<lambda>c. c = x) (rev (dropWhile (\<lambda>c. c = x) s)))"

definition startswith :: "string \<Rightarrow> char \<Rightarrow> bool" where
  "startswith s x = (case s of [] \<Rightarrow> False | c # cs \<Rightarrow> c = x)"

text \<open>
  \<^verbatim>\<open>s.split()\<close>: the maximal runs of non-whitespace characters, in order. The first
  argument collects the current word in reverse.
\<close>

fun split_ws_from :: "string \<Rightarrow> string \<Rightarrow> string list" where
  "split_ws_from w [] = (if w = [] then [] else [rev w])"
| "split_ws_from w (c # cs) =
     (if is_space c then (if w = [] then split_ws_from [] cs else rev w # split_ws_from [] cs)
      else split_ws_from (c # w) cs)"

definition split_ws :: "string \<Rightarrow> string list" where
  "split_ws s = split_ws_from [] s"

text \<open>
  \<^verbatim>\<open>s.split('\n\n')\<close>: the text is cut at every occurrence of two line feeds, scanning from
  the left without overlap; the result always has at least one piece.
\<close>

fun split_blank_from :: "string \<Rightarrow> string \<Rightarrow> string list" where
  "split_blank_from w [] = [rev w]"
| "split_blank_from w [c] = [rev (c # w)]"
| "split_blank_from w (c # d # cs) =
     (if c = CHR 0x0A \<and> d = CHR 0x0A then rev w # split_blank_from [] cs
      else split_blank_from (c # w) (d # cs))"

definition split_blank :: "string \<Rightarrow> string list" where
  "split_blank s = split_blank_from [] s"

text \<open>\<^verbatim>\<open>' '.join(ws)\<close>\<close>

fun join_space :: "string list \<Rightarrow> string" where
  "join_space [] = []"
| "join_space [w] = w"
| "join_space (w # v # ws) = w @ '' '' @ join_space (v # ws)"

text \<open>The decimal numeral of a natural number, as an f-string writes an \<^verbatim>\<open>int\<close>.\<close>

fun str_of_nat :: "nat \<Rightarrow> string" where
  "str_of_nat n =
     (if n < 10 then [''0123456789'' ! n]
      else str_of_nat (n div 10) @ [''0123456789'' ! (n mod 10)])"

declare str_of_nat.simps [simp del]

text \<open>A \<^verbatim>\<open>dict\<close> is an association list in insertion order; \<^verbatim>\<open>d.get(k, default)\<close>:\<close>

definition dict_get :: "(string \<times> string) list \<Rightarrow> string \<Rightarrow> string \<Rightarrow> string" where
  "dict_get d k dflt = (case map_of d k of Some v \<Rightarrow> v | None \<Rightarrow> dflt)"


section \<open>The section catalog\<close>

record section_info =
  title :: string
  pages :: nat
  description :: "string option"

definition SECTIONS :: "(string \<times> section_info) list" where
  "SECTIONS =
    [(''COVER_PAGE'', \<lparr>title = ''COVER PAGE'', pages = 1, description = None\<rparr>),
     (''CONTENTS'', \<lparr>title = ''TABLE OF CONTENTS'', pages = 1, description = None\<rparr>),
     (''ABSTRACT'', \<lparr>title = ''ABSTRACT'', pages = 1, description = Some
        ''Provides a high-level summary of the project, including objectives, methodology, and expected outcomes.''\<rparr>),
     (''LITERATURE_SURVEY'', \<lparr>title = ''LITERATURE SURVEY'', pages = 3, description = Some
        ''Reviews existing research, technologies, and methodologies related to the project.''\<rparr>),
     (''CHAPTER_1'', \<lparr>title = ''CHAPTER 1: INTRODUCTION'', pages = 3, description = Some
        ''Explains the background, significance, and objectives of the project.''\<rparr>),
     (''CHAPTER_2'', \<lparr>title = ''CHAPTER 2: WORKING AND BLOCK DIAGRAM'', pages = 4, description = Some
        ''Details the working principle and block diagram representation of the system.''\<rparr>),
     (''CHAPTER_3'', \<lparr>title = ''CHAPTER 3: HARDWARE COMPONENTS DESCRIPTION'', pages = 5, description = Some
        ''Describes the components used (Arduino, Bluetooth module, motor driver, sensors, etc.).''\<rparr>),
     (''CHAPTER_4'', \<lparr>title = ''CHAPTER 4: SOFTWARE DESCRIPTION'', pages = 4, description = Some
        ''Covers programming aspects, including Arduino code and mobile app interface.''\<rparr>),
     (''CHAPTER_5'', \<lparr>title = ''CHAPTER 5: ADVANTAGES & APPLICATIONS'', pages = 2, description = Some
        ''Highlights benefits and potential real-world applications of the project.''\<rparr>),
     (''CHAPTER_6'', \<lparr>title = ''CHAPTER 6: FUTURE SCOPE & CONCLUSION'', pages = 2, description = Some
        ''Discusses improvements, extensions, and final remarks on the project.''\<rparr>),
     (''REFERENCES'', \<lparr>title = ''REFERENCES'', pages = 1, description = Some
        ''Lists cited sources, books, research papers, and online materials.''\<rparr>)]"

text \<open>\<^verbatim>\<open>section_info.get('description', '')\<close>\<close>

definition description_or_empty :: "section_info \<Rightarrow> string" where
  "description_or_empty section_info =
     (case description section_info of Some d \<Rightarrow> d | None \<Rightarrow> [])"


section \<open>The document assembler\<close>

text \<open>
  The document is the sequence of block elements that \<^verbatim>\<open>create_docx\<close> adds to it, each with
  the alignment the code gives it (\<open>INHERIT\<close> when the code sets none). Fonts, sizes, line
  spacing, margins and the footer do not take part in the properties below and are left out.
  Exceptions are values: what a Python call raises is the \<open>Inl\<close> of a sum.
  \<^verbatim>\<open>Document.add_heading(text, level)\<close> of python-docx accepts the levels 0 to 9 and raises
  \<^verbatim>\<open>ValueError\<close> on any other.
\<close>

datatype alignment = CENTER | LEFT | JUSTIFY | INHERIT

datatype element =
    Heading string nat alignment
  | Paragraph string alignment
  | PageBreak

datatype exn =
    BackendError string
  | ValueError string
  | KeyError string
  | IndexError string

text \<open>\<^verbatim>\<open>str(e)\<close>; the text of a \<^verbatim>\<open>KeyError\<close> is the \<^verbatim>\<open>repr\<close> of the key.\<close>

fun exn_str :: "exn \<Rightarrow> string" where
  "exn_str (BackendError m) = m"
| "exn_str (ValueError m) = m"
| "exn_str (KeyError k) = [CHR 0x27] @ k @ [CHR 0x27]"
| "exn_str (IndexError m) = m"

definition add_heading :: "string \<Rightarrow> nat \<Rightarrow> alignment \<Rightarrow> exn + element" where
  "add_heading text level al =
     (if level \<le> 9 then Inr (Heading text level al)
      else Inl (ValueError (''level must be in range 0-9, got '' @ str_of_nat level)))"

definition add_placeholder_toc :: "element list" where
  "add_placeholder_toc =
    [Heading ''TABLE OF CONTENTS'' 1 INHERIT,
     Paragraph (''This Table of Contents will automatically update when you open the document in Microsoft Word. Right-click and select '' @
       [CHR 0x27] @ ''Update Field'' @ [CHR 0x27] @ '' to update it.'') INHERIT,
     Paragraph ''To replace this with an actual Table of Contents in Word:'' INHERIT,
     Paragraph ''1. Delete this text'' INHERIT,
     Paragraph ''2. Go to References tab'' INHERIT,
     Paragraph (''3. Click '' @ [CHR 0x27] @ ''Table of Contents'' @ [CHR 0x27]) INHERIT,
     Paragraph ''4. Select a style'' INHERIT]"

text \<open>
  One stored paragraph (the body of the loop over \<^verbatim>\<open>paragraphs\<close>): nothing for a blank
  one, a left-aligned heading when the stripped text starts with \<^verbatim>\<open>#\<close>, a justified body
  paragraph otherwise. For a heading, \<^verbatim>\<open>level\<close> is
  \<^verbatim>\<open>len(para.split()[0].strip('#'))\<close> and the text is the remaining words, joined and
  upper-cased.
\<close>

definition render_para :: "string \<Rightarrow> exn + element list" where
  "render_para para =
     (if strip para = [] then Inr []
      else if startswith (strip para) (CHR ''#'') then
        (case split_ws para of
           [] \<Rightarrow> Inl (IndexError ''list index out of range'')
         | w # ws \<Rightarrow>
             (let level = length (strip_chars (CHR ''#'') w);
                  text = upper (join_space ws)
              in case add_heading text (level + 1) LEFT of
                   Inl e \<Rightarrow> Inl e
                 | Inr subheading \<Rightarrow> Inr [subheading]))
      else Inr [Paragraph (strip para) JUSTIFY])"

fun render_paras :: "string list \<Rightarrow> exn + element list" where
  "render_paras [] = Inr []"
| "render_paras (para # paragraphs) =
     (case render_para para of
        Inl e \<Rightarrow> Inl e
      | Inr els \<Rightarrow>
          (case render_paras paragraphs of
             Inl e \<Rightarrow> Inl e
           | Inr rest \<Rightarrow> Inr (els @ rest)))"

text \<open>
  One iteration of the loop over \<^verbatim>\<open>SECTIONS.items()\<close>: the two front-matter keys are
  skipped; every other section gets its centred level-1 heading, the rendered paragraphs
  of its stored content when \<^verbatim>\<open>doc_sections\<close> has the key, and a page break.
\<close>

definition render_section ::
  "(string \<times> string) list \<Rightarrow> string \<times> section_info \<Rightarrow> exn + element list" where
  "render_section doc_sections sec =
     (case sec of (section_key, section_info) \<Rightarrow>
        if section_key \<in> set [''COVER_PAGE'', ''CONTENTS''] then Inr []
        else
          (case add_heading (title section_info) 1 CENTER of
             Inl e \<Rightarrow> Inl e
           | Inr heading \<Rightarrow>
               (case map_of doc_sections section_key of
                  None \<Rightarrow> Inr [heading, PageBreak]
                | Some content \<Rightarrow>
                    (case render_paras (split_blank content) of
                       Inl e \<Rightarrow> Inl e
                     | Inr body \<Rightarrow> Inr ([heading] @ body @ [PageBreak])))))"

fun render_sections ::
  "(string \<times> string) list \<Rightarrow> (string \<times> section_info) list \<Rightarrow> exn + element list" where
  "render_sections doc_sections [] = Inr []"
| "render_sections doc_sections (sec # secs) =
     (case render_section doc_sections sec of
        Inl e \<Rightarrow> Inl e
      | Inr els \<Rightarrow>
          (case render_sections doc_sections secs of
             Inl e \<Rightarrow> Inl e
           | Inr rest \<Rightarrow> Inr (els @ rest)))"

text \<open>The cover page: the upper-cased title at level 0, then the non-empty metadata fields.\<close>

definition cover_field :: "(string \<times> string) list \<Rightarrow> string \<Rightarrow> element list" where
  "cover_field metadata field =
     (case map_of metadata field of
        None \<Rightarrow> []
      | Some v \<Rightarrow> if v = [] then [] else [Paragraph (upper v) CENTER])"

definition cover_page :: "(string \<times> string) list \<Rightarrow> element list" where
  "cover_page metadata =
     [Heading (upper (dict_get metadata ''title'' ''PROJECT DOCUMENTATION'')) 0 CENTER]
     @ concat (map (cover_field metadata) [''author'', ''institution'', ''date''])
     @ [Paragraph ''[Space reserved for project image]'' CENTER, PageBreak]"

text \<open>
  \<^verbatim>\<open>create_docx(metadata)\<close> reads \<^verbatim>\<open>st.session_state.doc_sections\<close>, here its second
  argument, and returns the document it saves; when a call raises, nothing is saved.
\<close>

definition create_docx ::
  "(string \<times> string) list \<Rightarrow> (string \<times> string) list \<Rightarrow> exn + element list" where
  "create_docx metadata doc_sections =
     (case render_sections doc_sections SECTIONS of
        Inl e \<Rightarrow> Inl e
      | Inr body \<Rightarrow> Inr (cover_page metadata @ add_placeholder_toc @ [PageBreak] @ body))"

text \<open>Readings of an assembled document.\<close>

fun is_chapter_heading :: "element \<Rightarrow> bool" where
  "is_chapter_heading (Heading t level al) = (level = 1 \<and> al = CENTER)"
| "is_chapter_heading (Paragraph t al) = False"
| "is_chapter_heading PageBreak = False"

fun heading_text :: "element \<Rightarrow> string" where
  "heading_text (Heading t level al) = t"
| "heading_text (Paragraph t al) = t"
| "heading_text PageBreak = []"

definition chapter_headings :: "element list \<Rightarrow> string list" where
  "chapter_headings doc = map heading_text (filter is_chapter_heading doc)"

definition count_page_breaks :: "element list \<Rightarrow> nat" where
  "count_page_breaks doc = length (filter (\<lambda>e. e = PageBreak) doc)"

text \<open>The titles of the catalog entries other than the two front-matter ones, in order.\<close>

definition chapter_titles :: "string list" where
  "chapter_titles =
     map (\<lambda>sec. title (snd sec))
       (filter (\<lambda>sec. fst sec \<noteq> ''COVER_PAGE'' \<and> fst sec \<noteq> ''CONTENTS'') SECTIONS)"


section \<open>Session state, inputs and the two backends\<close>

text \<open>
  The two chat models are external services: a call either returns the text of a response
  or raises. A backend is any function from the number of invocations made so far, the
  model and the prompt to \<open>Inr\<close> of the response content or \<open>Inl\<close> of the text of the
  exception, so that the same prompt may be answered differently on each call.
\<close>

datatype model = groq_model | google_model

type_synonym backend = "nat \<Rightarrow> model \<Rightarrow> string \<Rightarrow> string + string"

text \<open>The text areas read when generation is triggered.\<close>

record inputs =
  project_abstract :: string
  technologies :: string
  objectives :: string
  components :: string

record feedback_entry =
  entry_section :: string
  entry_feedback :: string
  entry_timestamp :: nat

text \<open>
  \<^verbatim>\<open>st.session_state\<close>, together with the two things outside it that the handlers change:
  the saved document \<^verbatim>\<open>project_documentation.docx\<close> (\<open>None\<close> while it does not
  exist) and the log of backend invocations, each entry being the section worked on,
  the model invoked and the prompt.
\<close>

record state =
  doc_sections :: "(string \<times> string) list"
  metadata :: "(string \<times> string) list"
  feedback_history :: "feedback_entry list"
  has_generated :: bool
  output_file :: "element list option"
  calls :: "(string \<times> model \<times> string) list"

datatype ui_message = UiSuccess string | UiError string | UiWarning string


section \<open>The prompt builder\<close>

definition section_guidance :: "string \<Rightarrow> string" where
  "section_guidance section_key =
     (if section_key = ''CHAPTER_3'' then
        ''Focus on hardware components like Arduino, sensors, and other electronic components. Describe their specifications and roles in detail.''
      else if section_key = ''CHAPTER_4'' then
        ''Explain the programming approach, include pseudocode or algorithm descriptions (not actual code), and detail the software workflow.''
      else if section_key = ''LITERATURE_SURVEY'' then
        ''Review at least 5-7 similar projects or related research papers, mentioning their approaches and results.''
      else [])"

text \<open>The f-string of the generation loop, with the indentation it has in the source.\<close>

definition build_prompt :: "string \<Rightarrow> section_info \<Rightarrow> string \<Rightarrow> inputs \<Rightarrow> string" where
  "build_prompt section_key section_info project_type inp =
     ''Generate the '' @ title section_info @ '' section for the following '' @ project_type @
     '' project:\<newline>'' @
     ''                                \<newline>'' @
     ''                                Abstract: '' @ project_abstract inp @ ''\<newline>'' @
     ''                                \<newline>'' @
     ''                                Section Purpose: '' @ description_or_empty section_info @
     ''\<newline>'' @
     ''                                \<newline>'' @
     ''                                Additional Context:\<newline>'' @
     ''                                - Technologies: '' @ technologies inp @ ''\<newline>'' @
     ''                                - Objectives: '' @ objectives inp @ ''\<newline>'' @
     ''                                - Components: '' @ components inp @ ''\<newline>'' @
     ''                                - '' @ section_guidance section_key @ ''\<newline>'' @
     ''                                \<newline>'' @
     ''                                Requirements:\<newline>'' @
     ''                                1. This section should be approximately '' @
     str_of_nat (pages section_info) @ '' pages long (about '' @
     str_of_nat (pages section_info * 500) @ '' words)\<newline>'' @
     ''                                2. Use clear, straightforward explanations with appropriate technical depth\<newline>'' @
     ''                                3. Organize content with clear sections and subsections\<newline>'' @
     ''                                4. For headings, use plain text format (no special characters)\<newline>'' @
     ''                                5. Write in a professional academic style with proper citations where appropriate\<newline>'' @
     ''                                6. Use proper paragraph breaks for readability\<newline>'' @
     ''                                7. Focus on factual information that would be relevant to this type of project\<newline>'' @
     ''                                8. For CHAPTER_2, include descriptions of block diagrams (not the diagrams themselves)\<newline>'' @
     ''                                9. Make this content unique, avoiding generic templates\<newline>'' @
     ''                                10. Ensure all content is technically accurate and plausible\<newline>'' @
     ''                                ''"

text \<open>The f-string of the feedback handler.\<close>

definition feedback_prompt :: "string \<Rightarrow> string \<Rightarrow> section_info \<Rightarrow> string" where
  "feedback_prompt current feedback section_info =
     ''Update the following documentation section based on user feedback:\<newline>'' @
     ''                            \<newline>'' @
     ''                            Current content:\<newline>'' @
     ''                            '' @ current @ ''\<newline>'' @
     ''                            \<newline>'' @
     ''                            User feedback:\<newline>'' @
     ''                            '' @ feedback @ ''\<newline>'' @
     ''                            \<newline>'' @
     ''                            Section Purpose: '' @ description_or_empty section_info @
     ''\<newline>'' @
     ''                            \<newline>'' @
     ''                            Requirements:\<newline>'' @
     ''                            1. Maintain professional academic writing style\<newline>'' @
     ''                            2. Implement the requested changes thoroughly\<newline>'' @
     ''                            3. Keep the content within approximately '' @
     str_of_nat (pages section_info * 500) @ '' words\<newline>'' @
     ''                            4. Ensure the text remains technically accurate\<newline>'' @
     ''                            5. Use proper paragraph structure and organization\<newline>'' @
     ''                            6. Ensure content flows logically\<newline>'' @
     ''                            7. Use plain text format for headings (no special characters)\<newline>'' @
     ''                            ''"


section \<open>The generation run\<close>

text \<open>\<^verbatim>\<open>groq_model if len(st.session_state.doc_sections) % 2 == 0 else google_model\<close>\<close>

definition select_model :: "nat \<Rightarrow> model" where
  "select_model n = (if n mod 2 = 0 then groq_model else google_model)"

text \<open>
  One iteration of the loop over \<^verbatim>\<open>SECTIONS.items()\<close>. The result is the exception raised,
  if any, and the state as the iteration leaves it: session state is global, so what was
  stored before an exception stays stored.
\<close>

definition generate_section ::
  "backend \<Rightarrow> inputs \<Rightarrow> string \<times> section_info \<Rightarrow> state \<Rightarrow> exn option \<times> state" where
  "generate_section llm inp sec st =
     (case sec of (section_key, section_info) \<Rightarrow>
        if section_key = ''COVER_PAGE'' then (None, st)
        else
          (let mdl = select_model (length (doc_sections st));
               project_type = dict_get (metadata st) ''project_type'' [];
               prompt = build_prompt section_key section_info project_type inp
           in if section_key = ''CONTENTS'' then
                (None, st\<lparr>doc_sections :=
                   AList.update section_key ''TABLE OF CONTENTS'' (doc_sections st)\<rparr>)
              else
                (case llm (length (calls st)) mdl prompt of
                   Inl err \<Rightarrow>
                     (Some (BackendError err),
                      st\<lparr>calls := calls st @ [(section_key, mdl, prompt)]\<rparr>)
                 | Inr content \<Rightarrow>
                     (None,
                      st\<lparr>calls := calls st @ [(section_key, mdl, prompt)],
                         doc_sections := AList.update section_key content (doc_sections st)\<rparr>))))"

fun generate_loop ::
  "backend \<Rightarrow> inputs \<Rightarrow> (string \<times> section_info) list \<Rightarrow> state \<Rightarrow> exn option \<times> state" where
  "generate_loop llm inp [] st = (None, st)"
| "generate_loop llm inp (sec # secs) st =
     (case generate_section llm inp sec st of
        (Some e, st') \<Rightarrow> (Some e, st')
      | (None, st') \<Rightarrow> generate_loop llm inp secs st')"

text \<open>
  The handler of the "Generate Documentation" button: the body of
  \<^verbatim>\<open>if st.button(...)\<close>, with its \<^verbatim>\<open>try\<close>/\<^verbatim>\<open>except Exception\<close>. It returns the message shown
  to the user and the state it leaves.
\<close>

definition generate_clicked :: "backend \<Rightarrow> inputs \<Rightarrow> state \<Rightarrow> ui_message \<times> state" where
  "generate_clicked llm inp st =
     (if project_abstract inp \<noteq> [] then
        (case generate_loop llm inp SECTIONS (st\<lparr>doc_sections := []\<rparr>) of
           (Some e, st') \<Rightarrow> (UiError (''Error generating documentation: '' @ exn_str e), st')
         | (None, st') \<Rightarrow>
             (case create_docx (metadata st') (doc_sections st') of
                Inl e \<Rightarrow> (UiError (''Error generating documentation: '' @ exn_str e), st')
              | Inr doc \<Rightarrow>
                  (UiSuccess ''Documentation generated successfully!'',
                   st'\<lparr>output_file := Some doc, has_generated := True\<rparr>)))
      else (UiWarning ''Please enter a project abstract.'', st))"


section \<open>The feedback reviser\<close>

text \<open>The options of the review select box: every key but the two front-matter ones.\<close>

definition review_options :: "string list" where
  "review_options =
     filter (\<lambda>k. k \<noteq> ''COVER_PAGE'' \<and> k \<noteq> ''CONTENTS'') (map fst SECTIONS)"

text \<open>
  The handler of the "Submit Feedback" button, for the selected section, the feedback text
  and the time of the click. The two subscripts of the f-string raise \<^verbatim>\<open>KeyError\<close> on a
  missing key.
\<close>

definition submit_feedback ::
  "backend \<Rightarrow> nat \<Rightarrow> string \<Rightarrow> string \<Rightarrow> state \<Rightarrow> ui_message \<times> state" where
  "submit_feedback llm now selected_section feedback st =
     (let mdl = (if length (feedback_history st) mod 2 = 0 then google_model else groq_model)
      in case map_of (doc_sections st) selected_section of
           None \<Rightarrow>
             (UiError (''Error updating section: '' @ exn_str (KeyError selected_section)), st)
         | Some current \<Rightarrow>
             (case map_of SECTIONS selected_section of
                None \<Rightarrow>
                  (UiError (''Error updating section: '' @ exn_str (KeyError selected_section)),
                   st)
              | Some section_info \<Rightarrow>
                  (let prompt = feedback_prompt current feedback section_info
                   in case llm (length (calls st)) mdl prompt of
                        Inl err \<Rightarrow>
                          (UiError (''Error updating section: '' @ err),
                           st\<lparr>calls := calls st @ [(selected_section, mdl, prompt)]\<rparr>)
                      | Inr content \<Rightarrow>
                          (let st' = st\<lparr>calls := calls st @ [(selected_section, mdl, prompt)],
                                 doc_sections :=
                                   AList.update selected_section content (doc_sections st)\<rparr>
                           in case create_docx (metadata st') (doc_sections st') of
                                Inl e \<Rightarrow>
                                  (UiError (''Error updating section: '' @ exn_str e), st')
                              | Inr doc \<Rightarrow>
                                  (UiSuccess ''Section updated successfully!'',
                                   st'\<lparr>output_file := Some doc,
                                       feedback_history := feedback_history st' @
                                         [\<lparr>entry_section = title section_info,
                                           entry_feedback = feedback,
                                           entry_timestamp = now\<rparr>]\<rparr>)))))"


section \<open>Readings of a run\<close>

text \<open>
  Of a logged invocation, the section and the model. \<open>positional_models n ks\<close> is the
  alternation written out: the keys \<open>ks\<close> are numbered from \<open>n\<close>, an even number
  stands for the Groq model and an odd one for the Google model, and the contents key takes
  a number but no model. \<open>generated_keys\<close> are the keys the generation loop does not skip,
  and \<open>calls_since st st'\<close> the invocations logged between two states.
\<close>

definition call_target :: "string \<times> model \<times> string \<Rightarrow> string \<times> model" where
  "call_target c = (fst c, fst (snd c))"

fun positional_models :: "nat \<Rightarrow> string list \<Rightarrow> (string \<times> model) list" where
  "positional_models n [] = []"
| "positional_models n (k # ks) =
     (if k = ''CONTENTS'' then [] else [(k, if even n then groq_model else google_model)])
     @ positional_models (Suc n) ks"

definition generated_keys :: "(string \<times> section_info) list \<Rightarrow> string list" where
  "generated_keys secs = filter (\<lambda>k. k \<noteq> ''COVER_PAGE'') (map fst secs)"

definition calls_since :: "state \<Rightarrow> state \<Rightarrow> (string \<times> model \<times> string) list" where
  "calls_since st st' = drop (length (calls st)) (calls st')"


section \<open>Example inputs\<close>

text \<open>
  A session as the page sets it up before the first click, with the abstract
  "A Bluetooth-controlled robot car using Arduino"; a backend that always answers, one whose
  second invocation raises and one that answers a revision; the session after a complete
  run; and a stored abstract with a sub-heading, together with the document assembled
  from it.
\<close>

definition example_metadata :: "(string \<times> string) list" where
  "example_metadata =
    [(''title'', ''Robot Car''), (''author'', ''A. Student''), (''institution'', []),
     (''project_type'', ''Arduino-based''), (''date'', ''November 04, 2026'')]"

definition example_inputs :: inputs where
  "example_inputs =
    \<lparr>project_abstract = ''A Bluetooth-controlled robot car using Arduino'',
     technologies = ''Arduino Uno, HC-05 Bluetooth'', objectives = [],
     components = ''L298N Motor Driver''\<rparr>"

definition example_state :: state where
  "example_state =
    \<lparr>doc_sections = [], metadata = example_metadata, feedback_history = [],
     has_generated = False, output_file = None, calls = []\<rparr>"

definition plain_backend :: backend where
  "plain_backend n mdl prompt = Inr ''Plain text.''"

definition failing_backend :: backend where
  "failing_backend n mdl prompt = (if n = 1 then Inl ''quota exceeded'' else Inr ''Plain text.'')"

definition revising_backend :: backend where
  "revising_backend n mdl prompt = Inr ''Revised text.''"

definition generated_state :: state where
  "generated_state = snd (generate_clicked plain_backend example_inputs example_state)"

definition example_sections :: "(string \<times> string) list" where
  "example_sections = [(''ABSTRACT'', ''## Overview\<newline>\<newline>Plain text.'')]"

definition example_document :: "element list" where
  "example_document =
     [Heading ''ROBOT CAR'' 0 CENTER, Paragraph ''A. STUDENT'' CENTER,
      Paragraph ''NOVEMBER 04, 2026'' CENTER,
      Paragraph ''[Space reserved for project image]'' CENTER, PageBreak]
     @ add_placeholder_toc @ [PageBreak]
     @ [Heading ''ABSTRACT'' 1 CENTER, Heading ''OVERVIEW'' 1 LEFT,
        Paragraph ''Plain text.'' JUSTIFY, PageBreak]
     @ concat (map (\<lambda>t. [Heading t 1 CENTER, PageBreak]) (tl chapter_titles))"


section \<open>The document assembler: headings and page breaks\<close>

lemma add_heading_Inr: "add_heading t l a = Inr h \<Longrightarrow> h = Heading t l a \<and> l \<le> 9"
  by (auto simp: add_heading_def split: if_splits)

lemma render_para_plain:
  "render_para p = Inr els \<Longrightarrow> filter is_chapter_heading els = [] \<and> filter (\<lambda>e. e = PageBreak) els = []"
  by (auto simp: render_para_def Let_def dest!: add_heading_Inr split: if_splits list.splits sum.splits)

lemma render_paras_plain:
  "render_paras ps = Inr els \<Longrightarrow> filter is_chapter_heading els = [] \<and> filter (\<lambda>e. e = PageBreak) els = []"
proof (induction ps arbitrary: els)
  case Nil
  then show ?case by simp
next
  case (Cons p ps)
  then show ?case
    by (auto split: sum.splits dest: render_para_plain)
qed

lemma render_section_front:
  "k = ''COVER_PAGE'' \<or> k = ''CONTENTS'' \<Longrightarrow> render_section ds (k, info) = Inr []"
  by (auto simp: render_section_def)

lemma render_section_chapter:
  assumes "k \<noteq> ''COVER_PAGE''" "k \<noteq> ''CONTENTS''" "render_section ds (k, info) = Inr els"
  shows "chapter_headings els = [title info] \<and> count_page_breaks els = 1"
  using assms
  by (auto simp: render_section_def chapter_headings_def count_page_breaks_def add_heading_def
      split: option.splits sum.splits dest: render_paras_plain)

lemma render_section_missing:
  assumes "k \<noteq> ''COVER_PAGE''" "k \<noteq> ''CONTENTS''" "map_of ds k = None"
  shows "render_section ds (k, info) = Inr [Heading (title info) 1 CENTER, PageBreak]"
  using assms by (simp add: render_section_def add_heading_def)

lemma render_sections_chapters:
  "render_sections ds secs = Inr els \<Longrightarrow>
     chapter_headings els = map (\<lambda>sec. title (snd sec)) (filter (\<lambda>sec. fst sec \<noteq> ''COVER_PAGE'' \<and> fst sec \<noteq> ''CONTENTS'') secs)
     \<and> count_page_breaks els = length (filter (\<lambda>sec. fst sec \<noteq> ''COVER_PAGE'' \<and> fst sec \<noteq> ''CONTENTS'') secs)"
proof (induction secs arbitrary: els)
  case Nil
  then show ?case by (simp add: chapter_headings_def count_page_breaks_def)
next
  case (Cons sec secs)
  obtain k info where sec: "sec = (k, info)" by (cases sec)
  from Cons.prems obtain a b where a: "render_section ds sec = Inr a"
    and b: "render_sections ds secs = Inr b" and els: "els = a @ b"
    by (auto split: sum.splits)
  note ih = Cons.IH [OF b]
  show ?case
  proof (cases "k = ''COVER_PAGE'' \<or> k = ''CONTENTS''")
    case True
    with a sec have "a = []" using render_section_front [of k ds info] by simp
    with ih els sec True show ?thesis by auto
  next
    case False
    with a sec have "chapter_headings a = [title info] \<and> count_page_breaks a = 1"
      using render_section_chapter [of k ds info a] by simp
    with ih els sec False show ?thesis
      by (auto simp: chapter_headings_def count_page_breaks_def)
  qed
qed

lemma cover_page_plain:
  "chapter_headings (cover_page md) = [] \<and> count_page_breaks (cover_page md) = 1"
  by (auto simp: cover_page_def cover_field_def chapter_headings_def count_page_breaks_def
      split: option.splits)

lemma toc_plain:
  "chapter_headings add_placeholder_toc = [] \<and> count_page_breaks add_placeholder_toc = 0"
  by (simp add: add_placeholder_toc_def chapter_headings_def count_page_breaks_def)

lemma chapter_titles_eq:
  "chapter_titles = [''ABSTRACT'', ''LITERATURE SURVEY'', ''CHAPTER 1: INTRODUCTION'',
     ''CHAPTER 2: WORKING AND BLOCK DIAGRAM'', ''CHAPTER 3: HARDWARE COMPONENTS DESCRIPTION'',
     ''CHAPTER 4: SOFTWARE DESCRIPTION'', ''CHAPTER 5: ADVANTAGES & APPLICATIONS'',
     ''CHAPTER 6: FUTURE SCOPE & CONCLUSION'', ''REFERENCES'']"
  by (simp add: chapter_titles_def SECTIONS_def)

lemma create_docx_shape:
  assumes "create_docx md ds = Inr doc"
  shows "chapter_headings doc = chapter_titles \<and> count_page_breaks doc = 11"
proof -
  from assms obtain body where body: "render_sections ds SECTIONS = Inr body"
    and doc: "doc = cover_page md @ add_placeholder_toc @ [PageBreak] @ body"
    by (auto simp: create_docx_def split: sum.splits)
  have n: "length (filter (\<lambda>sec. fst sec \<noteq> ''COVER_PAGE'' \<and> fst sec \<noteq> ''CONTENTS'') SECTIONS) = 9"
    by (simp add: SECTIONS_def)
  from render_sections_chapters [OF body] n
  have b: "chapter_headings body = chapter_titles" "count_page_breaks body = 9"
    by (simp_all add: chapter_titles_def)
  have app: "\<And>xs ys. chapter_headings (xs @ ys) = chapter_headings xs @ chapter_headings ys"
    "\<And>xs ys. count_page_breaks (xs @ ys) = count_page_breaks xs + count_page_breaks ys"
    by (simp_all add: chapter_headings_def count_page_breaks_def)
  have pb: "chapter_headings [PageBreak] = []" "count_page_breaks [PageBreak] = 1"
    by (simp_all add: chapter_headings_def count_page_breaks_def)
  show ?thesis
    unfolding doc app using b cover_page_plain [of md] toc_plain pb by simp
qed

lemma example_document_assembled:
  "create_docx example_metadata example_sections = Inr example_document"
  by (simp add: create_docx_def SECTIONS_def render_section_def add_heading_def
     split_blank_def render_para_def strip_def is_space_def startswith_def split_ws_def strip_chars_def
     example_sections_def example_document_def example_metadata_def cover_page_def cover_field_def
     dict_get_def upper_def upper_char_def chapter_titles_def)

text \<open>
  C1, as amended. Whenever \<^verbatim>\<open>create_docx\<close> completes, whatever the stored sections and the
  metadata, the centred level-1 headings of the document are the titles of the catalog
  entries other than the cover page and the contents, each once and in catalog order. A
  section with no stored entry is rendered as its heading followed directly by the page
  break: it is not omitted and raises nothing.
\<close>

theorem create_docx_chapter_headings:
  "(create_docx md ds = Inr doc \<longrightarrow> chapter_headings doc = chapter_titles) \<and>
   (k \<noteq> ''COVER_PAGE'' \<and> k \<noteq> ''CONTENTS'' \<and> map_of ds k = None \<longrightarrow>
      render_section ds (k, info) = Inr [Heading (title info) 1 CENTER, PageBreak])"
  using create_docx_shape [of md ds doc] render_section_missing [of k ds info] by blast

theorem create_docx_chapter_headings_witness:
  "create_docx example_metadata example_sections = Inr example_document \<and>
   chapter_headings example_document = chapter_titles \<and>
   map_of example_sections ''CHAPTER_1'' = None \<and>
   render_section example_sections
     (''CHAPTER_1'', \<lparr>title = ''CHAPTER 1: INTRODUCTION'', pages = 3, description = None\<rparr>)
     = Inr [Heading ''CHAPTER 1: INTRODUCTION'' 1 CENTER, PageBreak]"
proof -
  have m: "map_of example_sections ''CHAPTER_1'' = None"
    by (simp add: example_sections_def)
  from create_docx_chapter_headings [of example_metadata example_sections example_document
      "''CHAPTER_1''" "\<lparr>title = ''CHAPTER 1: INTRODUCTION'', pages = 3, description = None\<rparr>"]
    example_document_assembled m
  show ?thesis by simp
qed

text \<open>
  C1 as stated, for every stored content, fails: nothing bounds the level passed to
  \<^verbatim>\<open>add_heading\<close>. The first word of the paragraph below is nine marker characters
  followed by nine others, so \<^verbatim>\<open>level\<close> is 9, the heading is asked for at level 10 and
  the assembler raises instead of producing a document.
\<close>

theorem create_docx_heading_level_counterexample:
  "create_docx example_metadata [(''ABSTRACT'', ''#########Appendix1 notes'')]
     = Inl (ValueError ''level must be in range 0-9, got 10'')"
  by (simp add: create_docx_def SECTIONS_def render_section_def add_heading_def
     split_blank_def render_para_def strip_def is_space_def startswith_def split_ws_def strip_chars_def
     str_of_nat.simps)

text \<open>
  C2. The claim is that "## Example Heading" becomes a sub-heading at nesting level 2. In
  the code \<^verbatim>\<open>strip('#')\<close> removes the markers instead of counting them, so \<^verbatim>\<open>level\<close> is
  0 for a run of markers of any length and the sub-heading is added at heading level 1,
  the level of the chapter headings. The text is upper-cased as claimed, and "Plain text."
  is a justified paragraph, unchanged.
\<close>

theorem render_para_marker_and_plain:
  "render_para ''## Example Heading'' = Inr [Heading ''EXAMPLE HEADING'' 1 LEFT]
   \<and> render_para ''### Example Heading'' = Inr [Heading ''EXAMPLE HEADING'' 1 LEFT]
   \<and> render_para ''Plain text.'' = Inr [Paragraph ''Plain text.'' JUSTIFY]"
  by (simp add: render_para_def strip_def is_space_def startswith_def split_ws_def
      strip_chars_def upper_def upper_char_def add_heading_def)


section \<open>The generation loop: stored sections and invocations\<close>

lemma update_fresh: "k \<notin> fst ` set al \<Longrightarrow> AList.update k v al = al @ [(k, v)]"
  by (induction al) auto

lemma generate_section_cases:
  assumes "generate_section llm inp (k, info) st = (r, st')"
  obtains
    (cover) "k = ''COVER_PAGE''" "r = None" "st' = st"
  | (contents) "k = ''CONTENTS''" "r = None"
      "st' = st\<lparr>doc_sections := AList.update k ''TABLE OF CONTENTS'' (doc_sections st)\<rparr>"
  | (failed) p e where "k \<noteq> ''COVER_PAGE''" "k \<noteq> ''CONTENTS''" "r = Some (BackendError e)"
      "llm (length (calls st)) (select_model (length (doc_sections st))) p = Inl e"
      "st' = st\<lparr>calls := calls st @ [(k, select_model (length (doc_sections st)), p)]\<rparr>"
  | (stored) p c where "k \<noteq> ''COVER_PAGE''" "k \<noteq> ''CONTENTS''" "r = None"
      "llm (length (calls st)) (select_model (length (doc_sections st))) p = Inr c"
      "st' = st\<lparr>calls := calls st @ [(k, select_model (length (doc_sections st)), p)],
                 doc_sections := AList.update k c (doc_sections st)\<rparr>"
  using assms
  by (auto simp: generate_section_def Let_def split: if_splits sum.splits)

lemma generate_section_frame:
  assumes "generate_section llm inp sec st = (r, st')"
  shows "metadata st' = metadata st \<and> feedback_history st' = feedback_history st
     \<and> has_generated st' = has_generated st \<and> output_file st' = output_file st"
proof -
  obtain k info where "sec = (k, info)" by (cases sec)
  with assms show ?thesis by (auto elim!: generate_section_cases)
qed

lemma generate_loop_frame:
  "generate_loop llm inp secs st = (r, st') \<Longrightarrow>
   metadata st' = metadata st \<and> feedback_history st' = feedback_history st
     \<and> has_generated st' = has_generated st \<and> output_file st' = output_file st"
proof (induction secs arbitrary: st)
  case Nil
  then show ?case by simp
next
  case (Cons sec secs)
  obtain r1 st1 where s: "generate_section llm inp sec st = (r1, st1)"
    by (cases "generate_section llm inp sec st")
  show ?case
  proof (cases r1)
    case None
    with Cons.prems s have "generate_loop llm inp secs st1 = (r, st')" by simp
    from Cons.IH [OF this] generate_section_frame [OF s] show ?thesis by simp
  next
    case (Some e)
    with Cons.prems s have "st' = st1" by simp
    with generate_section_frame [OF s] show ?thesis by simp
  qed
qed

lemma generate_loop_append:
  "generate_loop llm inp (xs @ ys) st =
     (case generate_loop llm inp xs st of
        (Some e, st') \<Rightarrow> (Some e, st')
      | (None, st') \<Rightarrow> generate_loop llm inp ys st')"
  by (induction xs arbitrary: st) (auto split: prod.splits option.splits)

lemma generate_loop_keys:
  assumes "distinct (map fst secs)"
    and "fst ` set (doc_sections st) \<inter> set (map fst secs) = {}"
    and "generate_loop llm inp secs st = (None, st')"
  shows "map fst (doc_sections st') = map fst (doc_sections st) @ generated_keys secs"
  using assms
proof (induction secs arbitrary: st)
  case Nil
  then show ?case by (simp add: generated_keys_def)
next
  case (Cons sec secs)
  obtain k info where sec: "sec = (k, info)" by (cases sec)
  obtain r1 st1 where s: "generate_section llm inp (k, info) st = (r1, st1)"
    by (cases "generate_section llm inp (k, info) st")
  from Cons.prems(3) s sec have r1: "r1 = None" and rest: "generate_loop llm inp secs st1 = (None, st')"
    by (auto split: option.splits)
  from Cons.prems(2) sec have fresh: "k \<notin> fst ` set (doc_sections st)" by auto
  from Cons.prems(1) sec have dist: "distinct (map fst secs)" and knew: "k \<notin> set (map fst secs)"
    by auto
  from s show ?case
  proof (cases rule: generate_section_cases)
    case cover
    with Cons.prems(2) have "fst ` set (doc_sections st1) \<inter> set (map fst secs) = {}" by auto
    from Cons.IH [OF dist this rest] cover sec show ?thesis
      by (simp add: generated_keys_def)
  next
    case contents
    then have ds: "doc_sections st1 = doc_sections st @ [(k, ''TABLE OF CONTENTS'')]"
      using fresh by (simp add: update_fresh)
    with Cons.prems(2) knew have "fst ` set (doc_sections st1) \<inter> set (map fst secs) = {}" by auto
    from Cons.IH [OF dist this rest] ds contents sec show ?thesis
      by (simp add: generated_keys_def)
  next
    case (failed p e)
    with r1 show ?thesis by simp
  next
    case (stored p c)
    then have ds: "doc_sections st1 = doc_sections st @ [(k, c)]"
      using fresh by (simp add: update_fresh)
    with Cons.prems(2) knew have "fst ` set (doc_sections st1) \<inter> set (map fst secs) = {}" by auto
    from Cons.IH [OF dist this rest] ds stored sec show ?thesis
      by (simp add: generated_keys_def)
  qed
qed

lemma generate_loop_calls:
  assumes "distinct (map fst secs)"
    and "fst ` set (doc_sections st) \<inter> set (map fst secs) = {}"
    and "generate_loop llm inp secs st = (r, st')"
  shows "\<exists>new. calls st' = calls st @ new
     \<and> prefix (map call_target new)
          (positional_models (length (doc_sections st)) (generated_keys secs))
     \<and> (r = None \<longrightarrow> map call_target new =
          positional_models (length (doc_sections st)) (generated_keys secs))"
  using assms
proof (induction secs arbitrary: st)
  case Nil
  then show ?case by (simp add: generated_keys_def)
next
  case (Cons sec secs)
  obtain k info where sec: "sec = (k, info)" by (cases sec)
  obtain r1 st1 where s: "generate_section llm inp (k, info) st = (r1, st1)"
    by (cases "generate_section llm inp (k, info) st")
  from Cons.prems(2) sec have fresh: "k \<notin> fst ` set (doc_sections st)" by auto
  from Cons.prems(1) sec have dist: "distinct (map fst secs)" and knew: "k \<notin> set (map fst secs)"
    by auto
  from s show ?case
  proof (cases rule: generate_section_cases)
    case cover
    with Cons.prems(3) s sec have rest: "generate_loop llm inp secs st = (r, st')" by simp
    from Cons.prems(2) have "fst ` set (doc_sections st) \<inter> set (map fst secs) = {}" by auto
    from Cons.IH [OF dist this rest] cover sec show ?thesis
      by (simp add: generated_keys_def)
  next
    case contents
    with Cons.prems(3) s sec have rest: "generate_loop llm inp secs st1 = (r, st')" by simp
    from contents have ds: "doc_sections st1 = doc_sections st @ [(k, ''TABLE OF CONTENTS'')]"
      and cs: "calls st1 = calls st"
      using fresh by (simp_all add: update_fresh)
    with Cons.prems(2) knew have "fst ` set (doc_sections st1) \<inter> set (map fst secs) = {}" by auto
    from Cons.IH [OF dist this rest] ds cs contents sec show ?thesis
      by (simp add: generated_keys_def)
  next
    case (failed p e)
    with Cons.prems(3) s sec have "st' = st1" "r = Some (BackendError e)" by simp_all
    with failed sec show ?thesis
      by (auto simp: generated_keys_def call_target_def select_model_def)
  next
    case (stored p c)
    with Cons.prems(3) s sec have rest: "generate_loop llm inp secs st1 = (r, st')" by simp
    from stored have ds: "doc_sections st1 = doc_sections st @ [(k, c)]"
      and cs: "calls st1 = calls st @ [(k, select_model (length (doc_sections st)), p)]"
      using fresh by (simp_all add: update_fresh)
    with Cons.prems(2) knew have "fst ` set (doc_sections st1) \<inter> set (map fst secs) = {}" by auto
    from Cons.IH [OF dist this rest] obtain new where
      new: "calls st' = calls st1 @ new"
        "prefix (map call_target new) (positional_models (length (doc_sections st1)) (generated_keys secs))"
        "r = None \<longrightarrow> map call_target new = positional_models (length (doc_sections st1)) (generated_keys secs)"
      by blast
    let ?c = "(k, select_model (length (doc_sections st)), p)"
    have "calls st' = calls st @ (?c # new)" using new(1) cs by simp
    moreover have "prefix (map call_target (?c # new))
        (positional_models (length (doc_sections st)) (generated_keys (sec # secs)))"
      using new(2) ds stored(1,2) sec
      by (simp add: generated_keys_def call_target_def select_model_def even_iff_mod_2_eq_zero)
    moreover have "r = None \<longrightarrow> map call_target (?c # new) =
        positional_models (length (doc_sections st)) (generated_keys (sec # secs))"
      using new(3) ds stored(1,2) sec
      by (simp add: generated_keys_def call_target_def select_model_def even_iff_mod_2_eq_zero)
    ultimately show ?thesis by blast
  qed
qed

lemma generate_section_raises:
  assumes "generate_section llm inp sec st = (Some e, st')"
  shows "doc_sections st' = doc_sections st \<and> (\<exists>m. e = BackendError m)"
proof -
  obtain k info where "sec = (k, info)" by (cases sec)
  with assms show ?thesis by (auto elim!: generate_section_cases)
qed

lemma generate_loop_contents_kept:
  "generate_loop llm inp secs st = (r, st') \<Longrightarrow>
   map_of (doc_sections st) ''CONTENTS'' = Some ''TABLE OF CONTENTS'' \<Longrightarrow>
   map_of (doc_sections st') ''CONTENTS'' = Some ''TABLE OF CONTENTS''"
proof (induction secs arbitrary: st)
  case Nil
  then show ?case by simp
next
  case (Cons sec secs)
  obtain k info where sec: "sec = (k, info)" by (cases sec)
  obtain r1 st1 where s: "generate_section llm inp (k, info) st = (r1, st1)"
    by (cases "generate_section llm inp (k, info) st")
  from s Cons.prems(2) have kept: "map_of (doc_sections st1) ''CONTENTS'' = Some ''TABLE OF CONTENTS''"
    by (cases rule: generate_section_cases) (simp_all add: update_conv')
  show ?case
  proof (cases r1)
    case None
    with Cons.prems(1) s sec have "generate_loop llm inp secs st1 = (r, st')" by simp
    from Cons.IH [OF this kept] show ?thesis .
  next
    case (Some e)
    with Cons.prems(1) s sec have "st' = st1" by simp
    with kept show ?thesis by simp
  qed
qed

lemma generate_loop_no_contents_call:
  "generate_loop llm inp secs st = (r, st') \<Longrightarrow>
   \<exists>new. calls st' = calls st @ new \<and> ''CONTENTS'' \<notin> fst ` set new"
proof (induction secs arbitrary: st)
  case Nil
  then show ?case by simp
next
  case (Cons sec secs)
  obtain k info where sec: "sec = (k, info)" by (cases sec)
  obtain r1 st1 where s: "generate_section llm inp (k, info) st = (r1, st1)"
    by (cases "generate_section llm inp (k, info) st")
  from s have step: "\<exists>new. calls st1 = calls st @ new \<and> ''CONTENTS'' \<notin> fst ` set new"
    by (cases rule: generate_section_cases) simp_all
  show ?case
  proof (cases r1)
    case None
    with Cons.prems s sec have "generate_loop llm inp secs st1 = (r, st')" by simp
    from Cons.IH [OF this] step show ?thesis by auto
  next
    case (Some e)
    with Cons.prems s sec have "st' = st1" by simp
    with step show ?thesis by simp
  qed
qed

lemma SECTIONS_distinct: "distinct (map fst SECTIONS)"
  by (simp add: SECTIONS_def)

lemma generated_keys_SECTIONS:
  "generated_keys SECTIONS =
     [''CONTENTS'', ''ABSTRACT'', ''LITERATURE_SURVEY'', ''CHAPTER_1'', ''CHAPTER_2'',
      ''CHAPTER_3'', ''CHAPTER_4'', ''CHAPTER_5'', ''CHAPTER_6'', ''REFERENCES'']"
  by (simp add: generated_keys_def SECTIONS_def)

lemma positional_models_SECTIONS:
  "positional_models 0 (generated_keys SECTIONS) =
     [(''ABSTRACT'', google_model), (''LITERATURE_SURVEY'', groq_model),
      (''CHAPTER_1'', google_model), (''CHAPTER_2'', groq_model),
      (''CHAPTER_3'', google_model), (''CHAPTER_4'', groq_model),
      (''CHAPTER_5'', google_model), (''CHAPTER_6'', groq_model),
      (''REFERENCES'', google_model)]"
  by (simp add: generated_keys_SECTIONS)

text \<open>How the result of the handler relates to that of the loop.\<close>

lemma generate_clicked_run:
  assumes "project_abstract inp \<noteq> []" and "generate_clicked llm inp st = (msg, st')"
  obtains r st1 where "generate_loop llm inp SECTIONS (st\<lparr>doc_sections := []\<rparr>) = (r, st1)"
    and "doc_sections st' = doc_sections st1" and "calls st' = calls st1"
    and "metadata st' = metadata st1" and "feedback_history st' = feedback_history st1"
proof -
  obtain r st1 where l: "generate_loop llm inp SECTIONS (st\<lparr>doc_sections := []\<rparr>) = (r, st1)"
    by (cases "generate_loop llm inp SECTIONS (st\<lparr>doc_sections := []\<rparr>)")
  with assms have "doc_sections st' = doc_sections st1 \<and> calls st' = calls st1
      \<and> metadata st' = metadata st1 \<and> feedback_history st' = feedback_history st1"
    by (auto simp: generate_clicked_def split: option.splits sum.splits)
  with l that show ?thesis by blast
qed

lemma generate_clicked_success:
  assumes "generate_clicked llm inp st = (UiSuccess m, st')"
  obtains st1 doc where "generate_loop llm inp SECTIONS (st\<lparr>doc_sections := []\<rparr>) = (None, st1)"
    and "create_docx (metadata st1) (doc_sections st1) = Inr doc"
    and "st' = st1\<lparr>output_file := Some doc, has_generated := True\<rparr>"
  using assms
  by (auto simp: generate_clicked_def split: if_splits prod.splits option.splits sum.splits)

lemma calls_since_append: "calls st' = calls st @ new \<Longrightarrow> calls_since st st' = new"
  by (simp add: calls_since_def)

lemma generate_section_contents:
  "generate_section llm inp (''CONTENTS'', info) st =
     (None, st\<lparr>doc_sections := AList.update ''CONTENTS'' ''TABLE OF CONTENTS'' (doc_sections st)\<rparr>)"
  by (simp add: generate_section_def)

lemma generate_section_cover: "generate_section llm inp (''COVER_PAGE'', info) st = (None, st)"
  by (simp add: generate_section_def)

lemma generate_section_invokes:
  assumes "k \<noteq> ''COVER_PAGE''" "k \<noteq> ''CONTENTS''"
  shows "map call_target (calls_since st (snd (generate_section llm inp (k, info) st))) =
     [(k, if even (length (doc_sections st)) then groq_model else google_model)]"
proof -
  obtain r st1 where s: "generate_section llm inp (k, info) st = (r, st1)"
    by (cases "generate_section llm inp (k, info) st")
  from s assms have "map call_target (calls_since st st1) =
      [(k, if even (length (doc_sections st)) then groq_model else google_model)]"
    by (cases rule: generate_section_cases)
      (simp_all add: calls_since_def call_target_def select_model_def even_iff_mod_2_eq_zero)
  with s show ?thesis by simp
qed

text \<open>The catalog starts with the cover page, the contents and the abstract.\<close>

lemma SECTIONS_front:
  "\<exists>i0 i1 i2. SECTIONS =
     (''COVER_PAGE'', i0) # (''CONTENTS'', i1) # (''ABSTRACT'', i2) # drop 3 SECTIONS"
  by (simp add: SECTIONS_def)

lemma run_contents_stored:
  assumes "generate_loop llm inp SECTIONS st = (r, st')"
  shows "map_of (doc_sections st') ''CONTENTS'' = Some ''TABLE OF CONTENTS''"
proof -
  define rest where "rest = drop 3 SECTIONS"
  from SECTIONS_front obtain i0 i1 i2 where
    S: "SECTIONS = (''COVER_PAGE'', i0) # (''CONTENTS'', i1) # (''ABSTRACT'', i2) # rest"
    unfolding rest_def by blast
  let ?st2 = "st\<lparr>doc_sections := AList.update ''CONTENTS'' ''TABLE OF CONTENTS'' (doc_sections st)\<rparr>"
  from assms have "generate_loop llm inp ((''ABSTRACT'', i2) # rest) ?st2 = (r, st')"
    unfolding S by (simp add: generate_section_contents generate_section_cover)
  moreover have "map_of (doc_sections ?st2) ''CONTENTS'' = Some ''TABLE OF CONTENTS''"
    by (simp add: update_conv')
  ultimately show ?thesis by (rule generate_loop_contents_kept)
qed

lemma run_first_call:
  assumes "generate_loop llm inp SECTIONS (st\<lparr>doc_sections := []\<rparr>) = (r, st')"
  shows "\<exists>p rest. calls st' = calls st @ (''ABSTRACT'', google_model, p) # rest"
proof -
  define rest where "rest = drop 3 SECTIONS"
  from SECTIONS_front obtain i0 i1 i2 where
    S: "SECTIONS = (''COVER_PAGE'', i0) # (''CONTENTS'', i1) # (''ABSTRACT'', i2) # rest"
    unfolding rest_def by blast
  let ?st2 = "st\<lparr>doc_sections := [(''CONTENTS'', ''TABLE OF CONTENTS'')]\<rparr>"
  from assms have l: "generate_loop llm inp ((''ABSTRACT'', i2) # rest) ?st2 = (r, st')"
    unfolding S by (simp add: generate_section_contents generate_section_cover)
  obtain r3 st3 where s: "generate_section llm inp (''ABSTRACT'', i2) ?st2 = (r3, st3)"
    by (cases "generate_section llm inp (''ABSTRACT'', i2) ?st2")
  from s have c3: "\<exists>p. calls st3 = calls st @ [(''ABSTRACT'', google_model, p)]"
    by (cases rule: generate_section_cases) (simp_all add: select_model_def)
  show ?thesis
  proof (cases r3)
    case None
    with l s have "generate_loop llm inp rest st3 = (r, st')" by simp
    from generate_loop_no_contents_call [OF this] c3 show ?thesis by auto
  next
    case (Some e)
    with l s have "st' = st3" by simp
    with c3 show ?thesis by auto
  qed
qed

lemma run_calls_positional:
  assumes "distinct (map fst secs)"
    and "generate_loop llm inp secs (st\<lparr>doc_sections := []\<rparr>) = (r, st')"
  shows "prefix (map call_target (calls_since st st')) (positional_models 0 (generated_keys secs))
     \<and> (r = None \<longrightarrow>
          map call_target (calls_since st st') = positional_models 0 (generated_keys secs))"
proof -
  from generate_loop_calls [OF assms(1) _ assms(2)] obtain new where
    "calls st' = calls st @ new"
    "prefix (map call_target new) (positional_models 0 (generated_keys secs))"
    "r = None \<longrightarrow> map call_target new = positional_models 0 (generated_keys secs)"
    by auto
  then show ?thesis by (simp add: calls_since_append)
qed

text \<open>The example run completes, and its abstract is not empty.\<close>

lemma example_run_succeeds:
  "fst (generate_clicked plain_backend example_inputs example_state)
     = UiSuccess ''Documentation generated successfully!''"
  by (simp add: generate_clicked_def example_inputs_def SECTIONS_def generate_section_def
      plain_backend_def example_state_def Let_def create_docx_def render_section_def
      add_heading_def split_blank_def render_para_def strip_def is_space_def startswith_def)

lemma example_abstract: "project_abstract example_inputs \<noteq> []"
  by (simp add: example_inputs_def)

text \<open>
  C4. In every run with a non-empty abstract, however the backends answer and wherever the
  run stops, the entry stored under the contents key is the fixed literal and no invocation
  logged by the run is for the contents section.
\<close>

theorem contents_never_generated:
  assumes "project_abstract inp \<noteq> []"
    and "generate_clicked llm inp st = (msg, st')"
  shows "map_of (doc_sections st') ''CONTENTS'' = Some ''TABLE OF CONTENTS''
     \<and> ''CONTENTS'' \<notin> fst ` set (calls_since st st')"
proof -
  from assms obtain r st1 where
    l: "generate_loop llm inp SECTIONS (st\<lparr>doc_sections := []\<rparr>) = (r, st1)"
    and eq: "doc_sections st' = doc_sections st1" "calls st' = calls st1"
    by (rule generate_clicked_run)
  from generate_loop_no_contents_call [OF l] obtain new where
    "calls st1 = calls st @ new" "''CONTENTS'' \<notin> fst ` set new" by auto
  with eq have "''CONTENTS'' \<notin> fst ` set (calls_since st st')"
    by (simp add: calls_since_append)
  with run_contents_stored [OF l] eq show ?thesis by simp
qed

theorem contents_never_generated_witness:
  "project_abstract example_inputs \<noteq> []
   \<and> map_of (doc_sections (snd (generate_clicked failing_backend example_inputs example_state)))
       ''CONTENTS'' = Some ''TABLE OF CONTENTS''
   \<and> ''CONTENTS'' \<notin> fst ` set (calls_since example_state
         (snd (generate_clicked failing_backend example_inputs example_state)))"
  using contents_never_generated [OF example_abstract,
      of failing_backend example_state
         "fst (generate_clicked failing_backend example_inputs example_state)"
         "snd (generate_clicked failing_backend example_inputs example_state)"]
    example_abstract
  by simp

text \<open>
  C5. Which model is invoked depends on the number of stored sections alone: a section
  that reaches the backend is sent to the Groq model when that number is even and to the
  Google model when it is odd. Over a whole run, for any catalog of distinct keys, the
  invocations therefore follow the positions of the keys (the cover page not counted): the
  sequence of sections and models invoked is the alternation \<open>positional_models\<close> when the
  loop completes, and an initial part of it when a backend raises.
\<close>

theorem backend_selection_by_parity:
  "(distinct (map fst secs) \<and> generate_loop llm inp secs (st\<lparr>doc_sections := []\<rparr>) = (r, st')
      \<longrightarrow> prefix (map call_target (calls_since st st')) (positional_models 0 (generated_keys secs))
        \<and> (r = None \<longrightarrow>
             map call_target (calls_since st st') = positional_models 0 (generated_keys secs)))
   \<and> (k \<noteq> ''COVER_PAGE'' \<and> k \<noteq> ''CONTENTS''
      \<longrightarrow> map call_target (calls_since s (snd (generate_section llm inp (k, info) s))) =
            [(k, if even (length (doc_sections s)) then groq_model else google_model)])"
  using run_calls_positional [of secs llm inp st r st']
    generate_section_invokes [of k s llm inp info]
  by blast

lemma example_loop_completes:
  "fst (generate_loop plain_backend example_inputs SECTIONS (example_state\<lparr>doc_sections := []\<rparr>))
     = None"
  by (simp add: SECTIONS_def generate_section_def plain_backend_def example_state_def Let_def)

theorem backend_selection_by_parity_witness:
  "distinct (map fst SECTIONS)
   \<and> map call_target (calls_since example_state
        (snd (generate_loop plain_backend example_inputs SECTIONS
           (example_state\<lparr>doc_sections := []\<rparr>)))) =
       [(''ABSTRACT'', google_model), (''LITERATURE_SURVEY'', groq_model),
        (''CHAPTER_1'', google_model), (''CHAPTER_2'', groq_model),
        (''CHAPTER_3'', google_model), (''CHAPTER_4'', groq_model),
        (''CHAPTER_5'', google_model), (''CHAPTER_6'', groq_model),
        (''REFERENCES'', google_model)]
   \<and> map call_target (calls_since
        (example_state\<lparr>doc_sections := [(''CONTENTS'', ''TABLE OF CONTENTS''), (''ABSTRACT'', ''Plain text.'')]\<rparr>)
        (snd (generate_section plain_backend example_inputs
           (''CHAPTER_2'', \<lparr>title = ''CHAPTER 2: WORKING AND BLOCK DIAGRAM'', pages = 4, description = None\<rparr>)
           (example_state\<lparr>doc_sections := [(''CONTENTS'', ''TABLE OF CONTENTS''), (''ABSTRACT'', ''Plain text.'')]\<rparr>)))) =
       [(''CHAPTER_2'', groq_model)]"
proof -
  have run: "generate_loop plain_backend example_inputs SECTIONS (example_state\<lparr>doc_sections := []\<rparr>)
      = (None, snd (generate_loop plain_backend example_inputs SECTIONS
           (example_state\<lparr>doc_sections := []\<rparr>)))"
    using example_loop_completes by (metis prod.collapse)
  from backend_selection_by_parity [of SECTIONS plain_backend example_inputs example_state None
      "snd (generate_loop plain_backend example_inputs SECTIONS (example_state\<lparr>doc_sections := []\<rparr>))"
      "''CHAPTER_2''"
      "example_state\<lparr>doc_sections := [(''CONTENTS'', ''TABLE OF CONTENTS''), (''ABSTRACT'', ''Plain text.'')]\<rparr>"
      "\<lparr>title = ''CHAPTER 2: WORKING AND BLOCK DIAGRAM'', pages = 4, description = None\<rparr>"]
    run SECTIONS_distinct
  show ?thesis by (simp add: positional_models_SECTIONS)
qed

text \<open>
  C10. In every run with a non-empty abstract the first invocation is of the Google model,
  for the abstract section: the contents section is reached with no section stored, where
  the Groq model is selected, but it stores the literal without an invocation, and one
  section is stored when the abstract is reached. The Groq model comes second, for the
  literature survey.
\<close>

theorem first_invocation_is_google:
  assumes "project_abstract inp \<noteq> []"
    and "generate_clicked llm inp st = (msg, st')"
  shows "take 1 (map call_target (calls_since st st')) = [(''ABSTRACT'', google_model)]
     \<and> prefix (map call_target (calls_since st st'))
         [(''ABSTRACT'', google_model), (''LITERATURE_SURVEY'', groq_model),
          (''CHAPTER_1'', google_model), (''CHAPTER_2'', groq_model),
          (''CHAPTER_3'', google_model), (''CHAPTER_4'', groq_model),
          (''CHAPTER_5'', google_model), (''CHAPTER_6'', groq_model),
          (''REFERENCES'', google_model)]
     \<and> generate_section llm inp (''CONTENTS'', info) (st\<lparr>doc_sections := []\<rparr>)
         = (None, st\<lparr>doc_sections := [(''CONTENTS'', ''TABLE OF CONTENTS'')]\<rparr>)
     \<and> select_model (length (doc_sections (st\<lparr>doc_sections := []\<rparr>))) = groq_model"
proof -
  from assms obtain r st1 where
    l: "generate_loop llm inp SECTIONS (st\<lparr>doc_sections := []\<rparr>) = (r, st1)"
    and eq: "calls st' = calls st1"
    by (rule generate_clicked_run)
  from run_first_call [OF l] eq obtain p rest where
    "calls st' = calls st @ (''ABSTRACT'', google_model, p) # rest" by auto
  then have first: "take 1 (map call_target (calls_since st st')) = [(''ABSTRACT'', google_model)]"
    by (simp add: calls_since_def call_target_def)
  from eq have "calls_since st st' = calls_since st st1" by (simp add: calls_since_def)
  with run_calls_positional [OF SECTIONS_distinct l]
  have "prefix (map call_target (calls_since st st')) (positional_models 0 (generated_keys SECTIONS))"
    by simp
  with first show ?thesis
    by (simp add: positional_models_SECTIONS generate_section_contents select_model_def)
qed

theorem first_invocation_is_google_witness:
  "project_abstract example_inputs \<noteq> []
   \<and> map call_target (calls_since example_state
        (snd (generate_clicked failing_backend example_inputs example_state)))
       = [(''ABSTRACT'', google_model), (''LITERATURE_SURVEY'', groq_model)]
   \<and> take 1 (map call_target (calls_since example_state
        (snd (generate_clicked failing_backend example_inputs example_state))))
       = [(''ABSTRACT'', google_model)]"
proof -
  have c: "map call_target (calls_since example_state
        (snd (generate_clicked failing_backend example_inputs example_state)))
       = [(''ABSTRACT'', google_model), (''LITERATURE_SURVEY'', groq_model)]"
    by (simp add: generate_clicked_def example_inputs_def SECTIONS_def generate_section_def
      failing_backend_def example_state_def Let_def calls_since_def call_target_def select_model_def)
  from first_invocation_is_google [OF example_abstract,
      of failing_backend example_state
         "fst (generate_clicked failing_backend example_inputs example_state)"
         "snd (generate_clicked failing_backend example_inputs example_state)"
         "\<lparr>title = ''TABLE OF CONTENTS'', pages = 1, description = None\<rparr>"]
    example_abstract c
  show ?thesis by simp
qed

text \<open>
  C3, as amended. A run with a non-empty abstract that completes leaves exactly ten stored
  sections, the catalog keys other than the cover page, the contents one being the fixed
  literal; and the saved document has exactly 11 page breaks: one after the cover page, one
  after the contents block and one after each of the nine chapters.
\<close>

theorem full_run_entries_and_page_breaks:
  assumes "project_abstract inp \<noteq> []"
    and "generate_clicked llm inp st = (UiSuccess m, st')"
  shows "map fst (doc_sections st') =
       [''CONTENTS'', ''ABSTRACT'', ''LITERATURE_SURVEY'', ''CHAPTER_1'', ''CHAPTER_2'',
        ''CHAPTER_3'', ''CHAPTER_4'', ''CHAPTER_5'', ''CHAPTER_6'', ''REFERENCES'']
     \<and> length (doc_sections st') = 10
     \<and> map_of (doc_sections st') ''CONTENTS'' = Some ''TABLE OF CONTENTS''
     \<and> map_option count_page_breaks (output_file st') = Some 11"
proof -
  from assms(2) obtain st1 doc where
    l: "generate_loop llm inp SECTIONS (st\<lparr>doc_sections := []\<rparr>) = (None, st1)"
    and d: "create_docx (metadata st1) (doc_sections st1) = Inr doc"
    and st': "st' = st1\<lparr>output_file := Some doc, has_generated := True\<rparr>"
    by (rule generate_clicked_success)
  from generate_loop_keys [OF SECTIONS_distinct _ l]
  have keys: "map fst (doc_sections st1) = generated_keys SECTIONS" by simp
  then have "length (map fst (doc_sections st1)) = 10"
    by (simp only: generated_keys_SECTIONS) simp
  then have len: "length (doc_sections st1) = 10" by simp
  from run_contents_stored [OF l] create_docx_shape [OF d] keys len st'
  show ?thesis by (simp add: generated_keys_SECTIONS)
qed

theorem full_run_entries_and_page_breaks_witness:
  "project_abstract example_inputs \<noteq> []
   \<and> fst (generate_clicked plain_backend example_inputs example_state)
       = UiSuccess ''Documentation generated successfully!''
   \<and> length (doc_sections (snd (generate_clicked plain_backend example_inputs example_state))) = 10
   \<and> map_of (doc_sections (snd (generate_clicked plain_backend example_inputs example_state)))
       ''CONTENTS'' = Some ''TABLE OF CONTENTS''
   \<and> map_option count_page_breaks
       (output_file (snd (generate_clicked plain_backend example_inputs example_state))) = Some 11"
proof -
  have run: "generate_clicked plain_backend example_inputs example_state =
      (UiSuccess ''Documentation generated successfully!'',
       snd (generate_clicked plain_backend example_inputs example_state))"
    using example_run_succeeds by (metis prod.collapse)
  from full_run_entries_and_page_breaks [OF example_abstract run] example_abstract
    example_run_succeeds
  show ?thesis by simp
qed

text \<open>
  C3 as stated counts 12 page breaks. The run on the example abstract, with a backend that
  answers every prompt, saves a document with 11.
\<close>

theorem full_run_page_breaks_counterexample:
  "map_option count_page_breaks
     (output_file (snd (generate_clicked plain_backend example_inputs example_state))) = Some 11
   \<and> map_option count_page_breaks
     (output_file (snd (generate_clicked plain_backend example_inputs example_state))) \<noteq> Some 12"
proof -
  have run: "generate_clicked plain_backend example_inputs example_state =
      (UiSuccess ''Documentation generated successfully!'',
       snd (generate_clicked plain_backend example_inputs example_state))"
    using example_run_succeeds by (metis prod.collapse)
  then obtain st1 doc where
    d: "create_docx (metadata st1) (doc_sections st1) = Inr doc"
    and st': "snd (generate_clicked plain_backend example_inputs example_state)
        = st1\<lparr>output_file := Some doc, has_generated := True\<rparr>"
    by (rule generate_clicked_success)
  from create_docx_shape [OF d] st' show ?thesis by simp
qed

text \<open>
  C6. When the backend raises at some section of a run, the handler reports the one
  message "Error generating documentation: ..." and the state it leaves is the state as it
  was when the invocation was made, the log apart: the sections stored by the run up to
  there are all kept, unchanged, and the metadata, the feedback history, the
  \<^verbatim>\<open>has_generated\<close> flag and the saved document are those from before the click. (The run
  begins by emptying \<^verbatim>\<open>doc_sections\<close>, so the stored sections are those of this run.)
\<close>

theorem backend_failure_keeps_stored_sections:
  assumes "project_abstract inp \<noteq> []"
    and "SECTIONS = before @ sec # after"
    and "generate_loop llm inp before (st\<lparr>doc_sections := []\<rparr>) = (None, st1)"
    and "generate_section llm inp sec st1 = (Some (BackendError err), st2)"
  shows "generate_clicked llm inp st = (UiError (''Error generating documentation: '' @ err), st2)
     \<and> doc_sections st2 = doc_sections st1
     \<and> metadata st2 = metadata st \<and> feedback_history st2 = feedback_history st
     \<and> has_generated st2 = has_generated st \<and> output_file st2 = output_file st"
proof -
  have "generate_loop llm inp (before @ sec # after) (st\<lparr>doc_sections := []\<rparr>)
      = (Some (BackendError err), st2)"
    using assms(3,4) by (simp add: generate_loop_append)
  with assms(1,2) have run: "generate_clicked llm inp st
      = (UiError (''Error generating documentation: '' @ err), st2)"
    by (simp add: generate_clicked_def)
  from generate_section_raises [OF assms(4)] have kept: "doc_sections st2 = doc_sections st1"
    by simp
  from generate_loop_frame [OF assms(3)] generate_section_frame [OF assms(4)]
  have "metadata st2 = metadata st \<and> feedback_history st2 = feedback_history st
     \<and> has_generated st2 = has_generated st \<and> output_file st2 = output_file st"
    by simp
  with run kept show ?thesis by simp
qed

lemma failing_loop_prefix:
  "generate_loop failing_backend example_inputs (take 3 SECTIONS) (example_state\<lparr>doc_sections := []\<rparr>)
     = (None, example_state\<lparr>
          calls := [(''ABSTRACT'', google_model,
             build_prompt ''ABSTRACT'' (snd (SECTIONS ! 2)) ''Arduino-based'' example_inputs)],
          doc_sections := [(''CONTENTS'', ''TABLE OF CONTENTS''), (''ABSTRACT'', ''Plain text.'')]\<rparr>)"
  by (simp add: SECTIONS_def generate_section_def failing_backend_def example_state_def Let_def
      select_model_def dict_get_def example_metadata_def)

lemma failing_section:
  "generate_section failing_backend example_inputs (SECTIONS ! 3)
     (example_state\<lparr>
          calls := [(''ABSTRACT'', google_model,
             build_prompt ''ABSTRACT'' (snd (SECTIONS ! 2)) ''Arduino-based'' example_inputs)],
          doc_sections := [(''CONTENTS'', ''TABLE OF CONTENTS''), (''ABSTRACT'', ''Plain text.'')]\<rparr>)
   = (Some (BackendError ''quota exceeded''),
      example_state\<lparr>
          calls := [(''ABSTRACT'', google_model,
             build_prompt ''ABSTRACT'' (snd (SECTIONS ! 2)) ''Arduino-based'' example_inputs),
            (''LITERATURE_SURVEY'', groq_model,
             build_prompt ''LITERATURE_SURVEY'' (snd (SECTIONS ! 3)) ''Arduino-based'' example_inputs)],
          doc_sections := [(''CONTENTS'', ''TABLE OF CONTENTS''), (''ABSTRACT'', ''Plain text.'')]\<rparr>)"
  by (simp add: SECTIONS_def generate_section_def failing_backend_def example_state_def Let_def
      select_model_def dict_get_def example_metadata_def)

theorem backend_failure_keeps_stored_sections_witness:
  "project_abstract example_inputs \<noteq> []
   \<and> SECTIONS = take 3 SECTIONS @ (SECTIONS ! 3) # drop 4 SECTIONS
   \<and> fst (generate_loop failing_backend example_inputs (take 3 SECTIONS)
        (example_state\<lparr>doc_sections := []\<rparr>)) = None
   \<and> fst (generate_section failing_backend example_inputs (SECTIONS ! 3)
        (snd (generate_loop failing_backend example_inputs (take 3 SECTIONS)
           (example_state\<lparr>doc_sections := []\<rparr>)))) = Some (BackendError ''quota exceeded'')
   \<and> fst (generate_clicked failing_backend example_inputs example_state)
       = UiError ''Error generating documentation: quota exceeded''
   \<and> doc_sections (snd (generate_clicked failing_backend example_inputs example_state))
       = [(''CONTENTS'', ''TABLE OF CONTENTS''), (''ABSTRACT'', ''Plain text.'')]
   \<and> has_generated (snd (generate_clicked failing_backend example_inputs example_state)) = False
   \<and> output_file (snd (generate_clicked failing_backend example_inputs example_state)) = None"
proof -
  have split: "SECTIONS = take 3 SECTIONS @ (SECTIONS ! 3) # drop 4 SECTIONS"
    by (simp add: SECTIONS_def)
  from backend_failure_keeps_stored_sections
    [OF example_abstract split failing_loop_prefix failing_section]
  show ?thesis
    using example_abstract split failing_loop_prefix failing_section
    by (simp add: example_state_def)
qed

text \<open>
  C8. With an empty abstract the handler warns and returns the state unchanged: no stored
  section, feedback entry, metadata or saved document changes, and no backend is invoked.
  This is the handler of the button; the page itself rebuilds the metadata from the input
  widgets on every run of the script, before the handler.
\<close>

theorem empty_abstract_rejected:
  "project_abstract inp = [] \<Longrightarrow>
   generate_clicked llm inp st = (UiWarning ''Please enter a project abstract.'', st)"
  by (simp add: generate_clicked_def)

theorem empty_abstract_rejected_witness:
  "project_abstract (example_inputs\<lparr>project_abstract := []\<rparr>) = []
   \<and> generate_clicked plain_backend (example_inputs\<lparr>project_abstract := []\<rparr>) generated_state
       = (UiWarning ''Please enter a project abstract.'', generated_state)"
  using empty_abstract_rejected
    [of "example_inputs\<lparr>project_abstract := []\<rparr>" plain_backend generated_state]
  by simp


section \<open>The prompt builder: what a prompt contains\<close>

lemma sublist_skip: "sublist xs ys \<Longrightarrow> sublist xs (ps @ ys)"
  by (metis append.assoc sublist_def)

text \<open>
  C9. The prompt is a function of the section, the project type and the four text inputs
  and of nothing else, and it contains the section title, the project type, the abstract and
  the technologies, objectives and components texts as contiguous substrings.
\<close>

theorem build_prompt_contains_inputs:
  "sublist (title section_info) (build_prompt section_key section_info project_type inp)
   \<and> sublist project_type (build_prompt section_key section_info project_type inp)
   \<and> sublist (project_abstract inp) (build_prompt section_key section_info project_type inp)
   \<and> sublist (technologies inp) (build_prompt section_key section_info project_type inp)
   \<and> sublist (objectives inp) (build_prompt section_key section_info project_type inp)
   \<and> sublist (components inp) (build_prompt section_key section_info project_type inp)"
  unfolding build_prompt_def
  by (intro conjI; (rule sublist_append_rightI | rule sublist_skip)+)


section \<open>The feedback reviser: the frame of a revision\<close>

text \<open>
  C7. A feedback submission that succeeds replaces the stored text of the selected section
  by the response of the backend, leaves every other stored section and the order of the
  keys as they were, and appends one entry to the feedback history, with the title of the
  selected section, the feedback text and the time of the click.
\<close>

theorem feedback_replaces_one_section:
  assumes "submit_feedback llm now selected fb st = (UiSuccess m, st')"
    and "k \<noteq> selected"
  shows "map_of (doc_sections st') k = map_of (doc_sections st) k
     \<and> map fst (doc_sections st') = map fst (doc_sections st)
     \<and> (\<exists>info current content.
          map_of SECTIONS selected = Some info
        \<and> map_of (doc_sections st) selected = Some current
        \<and> llm (length (calls st))
              (if even (length (feedback_history st)) then google_model else groq_model)
              (feedback_prompt current fb info) = Inr content
        \<and> map_of (doc_sections st') selected = Some content
        \<and> feedback_history st' = feedback_history st @
            [\<lparr>entry_section = title info, entry_feedback = fb, entry_timestamp = now\<rparr>])"
proof -
  from assms(1) obtain info current content doc where
    i: "map_of SECTIONS selected = Some info"
    and c: "map_of (doc_sections st) selected = Some current"
    and r: "llm (length (calls st))
        (if length (feedback_history st) mod 2 = 0 then google_model else groq_model)
        (feedback_prompt current fb info) = Inr content"
    and st': "st' = st\<lparr>calls := calls st @ [(selected,
          if length (feedback_history st) mod 2 = 0 then google_model else groq_model,
          feedback_prompt current fb info)],
        doc_sections := AList.update selected content (doc_sections st),
        output_file := Some doc,
        feedback_history := feedback_history st @
          [\<lparr>entry_section = title info, entry_feedback = fb, entry_timestamp = now\<rparr>]\<rparr>"
    by (auto simp: submit_feedback_def Let_def split: option.splits sum.splits)
  from c have "selected \<in> set (map fst (doc_sections st))"
    by (metis map_of_eq_None_iff option.distinct(1) set_map)
  then have keys: "map fst (AList.update selected content (doc_sections st)) = map fst (doc_sections st)"
    by (simp add: update_keys)
  from assms(2) have other: "map_of (AList.update selected content (doc_sections st)) k
      = map_of (doc_sections st) k"
    by (simp add: update_conv')
  have new: "map_of (AList.update selected content (doc_sections st)) selected = Some content"
    by (simp add: update_conv')
  from i c r st' keys other new show ?thesis
    by (auto simp: even_iff_mod_2_eq_zero)
qed

lemma generated_state_sections:
  "doc_sections generated_state =
     [(''CONTENTS'', ''TABLE OF CONTENTS''), (''ABSTRACT'', ''Plain text.''),
      (''LITERATURE_SURVEY'', ''Plain text.''), (''CHAPTER_1'', ''Plain text.''),
      (''CHAPTER_2'', ''Plain text.''), (''CHAPTER_3'', ''Plain text.''),
      (''CHAPTER_4'', ''Plain text.''), (''CHAPTER_5'', ''Plain text.''),
      (''CHAPTER_6'', ''Plain text.''), (''REFERENCES'', ''Plain text.'')]"
  unfolding generated_state_def
  by (simp add: generate_clicked_def example_inputs_def SECTIONS_def generate_section_def
      plain_backend_def example_state_def Let_def create_docx_def render_section_def
      add_heading_def split_blank_def render_para_def strip_def is_space_def startswith_def)

lemma generated_state_frame:
  "metadata generated_state = example_metadata \<and> feedback_history generated_state = []"
  unfolding generated_state_def
  by (simp add: generate_clicked_def example_inputs_def SECTIONS_def generate_section_def
      plain_backend_def example_state_def Let_def create_docx_def render_section_def
      add_heading_def split_blank_def render_para_def strip_def is_space_def startswith_def)

lemma example_feedback_succeeds:
  "fst (submit_feedback revising_backend 1 ''CHAPTER_3'' ''Add the HC-05 pinout.'' generated_state)
     = UiSuccess ''Section updated successfully!''"
  by (simp add: submit_feedback_def generated_state_sections generated_state_frame
      revising_backend_def Let_def SECTIONS_def create_docx_def render_section_def
      add_heading_def split_blank_def render_para_def strip_def is_space_def startswith_def)

theorem feedback_replaces_one_section_witness:
  "fst (submit_feedback revising_backend 1 ''CHAPTER_3'' ''Add the HC-05 pinout.'' generated_state)
     = UiSuccess ''Section updated successfully!''
   \<and> ''CHAPTER_4'' \<noteq> ''CHAPTER_3''
   \<and> map_of (doc_sections (snd (submit_feedback revising_backend 1 ''CHAPTER_3''
         ''Add the HC-05 pinout.'' generated_state))) ''CHAPTER_4'' = Some ''Plain text.''
   \<and> map_of (doc_sections (snd (submit_feedback revising_backend 1 ''CHAPTER_3''
         ''Add the HC-05 pinout.'' generated_state))) ''CHAPTER_3'' = Some ''Revised text.''
   \<and> feedback_history (snd (submit_feedback revising_backend 1 ''CHAPTER_3''
         ''Add the HC-05 pinout.'' generated_state)) =
       [\<lparr>entry_section = ''CHAPTER 3: HARDWARE COMPONENTS DESCRIPTION'',
         entry_feedback = ''Add the HC-05 pinout.'', entry_timestamp = 1\<rparr>]"
proof -
  have run: "submit_feedback revising_backend 1 ''CHAPTER_3'' ''Add the HC-05 pinout.'' generated_state
      = (UiSuccess ''Section updated successfully!'',
         snd (submit_feedback revising_backend 1 ''CHAPTER_3'' ''Add the HC-05 pinout.''
           generated_state))"
    using example_feedback_succeeds by (metis prod.collapse)
  have ne: "''CHAPTER_4'' \<noteq> ''CHAPTER_3''" by simp
  from feedback_replaces_one_section [OF run ne] example_feedback_succeeds
  show ?thesis
    by (auto simp: generated_state_sections generated_state_frame revising_backend_def
        SECTIONS_def)
qed


end
